theory Spec2Isabelle
  imports Complex_Main "HOL-Library.Multiset"
begin

section \<open>JavaScript values used by the reconciliation code\<close>

text \<open>
  The repository is JavaScript: \<^verbatim>\<open>src/headerDetection.js\<close> infers the header row of a
  decoded spreadsheet grid and \<^verbatim>\<open>src/dataProcessor.js\<close> matches, aggregates and
  enriches the labelled records. This section models the values the two files compute
  with; the later sections translate the functions one by one.
\<close>

subsection \<open>Numbers\<close>

text \<open>
  A JavaScript number is an IEEE double. The model keeps the three special values the
  code can produce (a division by zero gives \<^verbatim>\<open>Infinity\<close>, a failed parse gives
  \<^verbatim>\<open>NaN\<close>) and reads every finite number as the rational it denotes. Arithmetic on
  finite numbers is exact here: rounding to 53 bits, overflow and the sign of zero are
  not modelled. The amounts evaluated below (60.75, 39.25, 15, ...) and the ratios 0.5,
  1 and 2 are binary fractions on which the double operations are exact as well; the
  scores compared below lie apart by 0.01 or more, far beyond the rounding error of the
  handful of double operations that compute them.
\<close>

datatype jsnum = Fin rat | PInf | NInf | NaN


fun jadd :: "jsnum \<Rightarrow> jsnum \<Rightarrow> jsnum" where
  "jadd NaN _ = NaN"
| "jadd _ NaN = NaN"
| "jadd (Fin a) (Fin b) = Fin (a + b)"
| "jadd PInf NInf = NaN"
| "jadd NInf PInf = NaN"
| "jadd PInf _ = PInf"
| "jadd NInf _ = NInf"
| "jadd _ PInf = PInf"
| "jadd _ NInf = NInf"


text \<open>The sign of a product or quotient with an infinite operand.\<close>

definition signed_inf :: "bool \<Rightarrow> jsnum" where
  "signed_inf positive = (if positive then PInf else NInf)"


text \<open>
  Division: a finite non-zero number divided by zero is an infinity, \<^verbatim>\<open>0 / 0\<close> is
  \<^verbatim>\<open>NaN\<close>. Every divisor of the code is a count, so the zero is \<^verbatim>\<open>+0\<close>.
\<close>

fun jdiv :: "jsnum \<Rightarrow> jsnum \<Rightarrow> jsnum" where
  "jdiv NaN _ = NaN"
| "jdiv _ NaN = NaN"
| "jdiv (Fin a) (Fin b) =
     (if b = 0 then (if a = 0 then NaN else signed_inf (0 < a)) else Fin (a / b))"
| "jdiv (Fin a) _ = Fin 0"
| "jdiv PInf (Fin b) = signed_inf (0 \<le> b)"
| "jdiv NInf (Fin b) = signed_inf (b < 0)"
| "jdiv _ _ = NaN"




text \<open>\<^verbatim>\<open>x || 0\<close> on a number: \<^verbatim>\<open>0\<close> and \<^verbatim>\<open>NaN\<close> are falsy.\<close>

definition or_zero :: "jsnum \<Rightarrow> jsnum" where
  "or_zero x = (if x = NaN \<or> x = Fin 0 then Fin 0 else x)"


subsection \<open>Strings\<close>

text \<open>
  A string is a list of characters. The functions below follow the ECMAScript
  definitions on ASCII text: \<^verbatim>\<open>toLowerCase\<close> maps \<^verbatim>\<open>A\<close>-\<^verbatim>\<open>Z\<close> only, white space is
  tab, line feed, vertical tab, form feed, carriage return and space.
\<close>

definition is_digit :: "char \<Rightarrow> bool" where
  "is_digit c = (c \<in> set ''0123456789'')"

definition is_space :: "char \<Rightarrow> bool" where
  "is_space c = (c \<in> {CHR 0x09, CHR 0x0A, CHR 0x0B, CHR 0x0C, CHR 0x0D, CHR '' ''})"

definition lower_char :: "char \<Rightarrow> char" where
  "lower_char c =
     (case map_of (zip ''ABCDEFGHIJKLMNOPQRSTUVWXYZ'' ''abcdefghijklmnopqrstuvwxyz'') c of
        Some l \<Rightarrow> l | None \<Rightarrow> c)"

definition toLowerCase :: "string \<Rightarrow> string" where
  "toLowerCase s = map lower_char s"


fun startsWith :: "string \<Rightarrow> string \<Rightarrow> bool" where
  "startsWith s [] = True"
| "startsWith [] (t # ts) = False"
| "startsWith (c # cs) (t # ts) = (c = t \<and> startsWith cs ts)"


definition digit_val :: "char \<Rightarrow> nat" where
  "digit_val c = (case map_of (zip ''0123456789'' [0, 1, 2, 3, 4, 5, 6, 7, 8, 9]) c of Some d \<Rightarrow> d | None \<Rightarrow> 0)"

definition digits_val :: "string \<Rightarrow> nat" where
  "digits_val ds = foldl (\<lambda>n c. 10 * n + digit_val c) 0 ds"

text \<open>The leading digits of a string, and what follows them.\<close>

definition span_digits :: "string \<Rightarrow> string \<times> string" where
  "span_digits s = (takeWhile is_digit s, dropWhile is_digit s)"

subsection \<open>Parsing numbers out of strings\<close>

text \<open>
  The exponent part of a decimal literal: \<^verbatim>\<open>e\<close> or \<^verbatim>\<open>E\<close>, an optional sign and at
  least one digit. Returns the exponent and the rest; a string that does not begin with
  a complete exponent part is left as it is.
\<close>

definition parse_exponent :: "string \<Rightarrow> int \<times> string" where
  "parse_exponent s =
     (case s of
        [] \<Rightarrow> (0, s)
      | c # r \<Rightarrow>
          if c = CHR ''e'' \<or> c = CHR ''E'' then
            (let (neg, r') = (case r of
                                [] \<Rightarrow> (False, r)
                              | d # r'' \<Rightarrow> if d = CHR ''-'' then (True, r'')
                                           else if d = CHR ''+'' then (False, r'')
                                           else (False, r));
                 (ds, rest) = span_digits r'
             in if ds = [] then (0, s)
                else ((if neg then - int (digits_val ds) else int (digits_val ds)), rest))
          else (0, s))"

definition pow10 :: "int \<Rightarrow> rat" where
  "pow10 e = (if 0 \<le> e then 10 ^ nat e else 1 / 10 ^ nat (- e))"

text \<open>
  The longest prefix that is a \<^verbatim>\<open>StrDecimalLiteral\<close>: an optional sign, then
  \<^verbatim>\<open>Infinity\<close> or digits with an optional fraction and exponent. Returns the value and
  the unread rest, or \<open>None\<close> when no prefix is a literal.
\<close>

definition parse_decimal :: "string \<Rightarrow> (jsnum \<times> string) option" where
  "parse_decimal s =
     (let (neg, s1) = (case s of
                         [] \<Rightarrow> (False, s)
                       | c # r \<Rightarrow> if c = CHR ''-'' then (True, r)
                                  else if c = CHR ''+'' then (False, r)
                                  else (False, s))
      in if startsWith s1 ''Infinity''
         then Some (if neg then NInf else PInf, drop 8 s1)
         else
           (let (ip, r1) = span_digits s1;
                (fp, r2) = (case r1 of
                              [] \<Rightarrow> ([], r1)
                            | c # r \<Rightarrow> if c = CHR ''.'' then span_digits r else ([], r1))
            in if ip = [] \<and> fp = [] then None
               else
                 (let (e, rest) = parse_exponent r2;
                      m = of_nat (digits_val ip) + of_nat (digits_val fp) / 10 ^ length fp;
                      v = m * pow10 e
                  in Some (Fin (if neg then - v else v), rest))))"

text \<open>\<^verbatim>\<open>parseFloat(s)\<close> on a string: leading white space is skipped, trailing text ignored.\<close>

definition parseFloat_str :: "string \<Rightarrow> jsnum" where
  "parseFloat_str s =
     (case parse_decimal (dropWhile is_space s) of None \<Rightarrow> NaN | Some (v, _) \<Rightarrow> v)"






text \<open>
  The amount clean-up of the aggregation, \<^verbatim>\<open>rawAmt.replace(/[^\d.-]/g, '')\<close>: only
  digits, decimal points and minus signs are kept.
\<close>

definition cleanAmt :: "string \<Rightarrow> string" where
  "cleanAmt rawAmt = filter (\<lambda>c. is_digit c \<or> c = CHR ''.'' \<or> c = CHR ''-'') rawAmt"

subsection \<open>Printing numbers\<close>

fun digits_of :: "nat \<Rightarrow> string" where
  "digits_of n =
     (if n < 10 then [''0123456789'' ! n]
      else digits_of (n div 10) @ [''0123456789'' ! (n mod 10)])"

declare digits_of.simps [simp del]

fun frac_digits :: "nat \<Rightarrow> rat \<Rightarrow> string" where
  "frac_digits 0 f = []"
| "frac_digits (Suc k) f =
     (if f = 0 then []
      else (''0123456789'' ! nat \<lfloor>f * 10\<rfloor>) # frac_digits k (f * 10 - of_int \<lfloor>f * 10\<rfloor>))"

text \<open>
  \<^verbatim>\<open>Number.prototype.toString\<close>: the decimal expansion of the value. ECMAScript prints
  the shortest digits that read back as the same double and switches to exponent
  notation from \<^verbatim>\<open>1e21\<close> on and below \<^verbatim>\<open>1e-6\<close>; here the expansion is exact, cut after
  20 fractional digits.
\<close>

fun num_toString :: "jsnum \<Rightarrow> string" where
  "num_toString NaN = ''NaN''"
| "num_toString PInf = ''Infinity''"
| "num_toString NInf = ''-Infinity''"
| "num_toString (Fin q) =
     (let a = \<bar>q\<bar>; ip = nat \<lfloor>a\<rfloor>; f = a - of_nat ip
      in (if q < 0 then ''-'' else '''') @ digits_of ip @
         (if f = 0 then '''' else ''.'' @ frac_digits 20 f))"

subsection \<open>Cells and objects\<close>

text \<open>
  A cell is a JavaScript value. The decoder yields numbers, strings, booleans and
  \<^verbatim>\<open>Date\<close> objects; the code also tests for \<^verbatim>\<open>null\<close> and \<^verbatim>\<open>undefined\<close>. A \<^verbatim>\<open>Date\<close> is
  known to the code only by its identity (a \<^verbatim>\<open>Set\<close> compares objects by reference) and
  by the text \<^verbatim>\<open>toString()\<close> returns, so \<open>DateObj\<close> carries these two. \<open>Builtin k\<close>
  is the member \<open>k\<close> of \<^verbatim>\<open>Object.prototype\<close>, which a property read on a plain object
  finds when the object has no own property of that name.

  Equality of cells is the \<^verbatim>\<open>SameValueZero\<close> comparison of \<^verbatim>\<open>Set.prototype.has\<close>:
  \<^verbatim>\<open>NaN\<close> equals itself, values of different types differ.
\<close>

datatype cell =
    Null
  | Undefined
  | Number jsnum
  | Str string
  | Bool bool
  | DateObj nat string
  | Builtin string

text \<open>The names every plain object inherits from \<^verbatim>\<open>Object.prototype\<close>.\<close>

definition objectPrototypeKeys :: "string list" where
  "objectPrototypeKeys =
     [''constructor'', ''__defineGetter__'', ''__defineSetter__'', ''hasOwnProperty'',
      ''__lookupGetter__'', ''__lookupSetter__'', ''isPrototypeOf'',
      ''propertyIsEnumerable'', ''toString'', ''valueOf'', ''__proto__'',
      ''toLocaleString'']"

text \<open>
  What \<^verbatim>\<open>toString()\<close> returns on an inherited member: the members are native
  functions, except \<^verbatim>\<open>__proto__\<close>, which reads as \<^verbatim>\<open>Object.prototype\<close> itself.
\<close>

definition builtin_text :: "string \<Rightarrow> string" where
  "builtin_text k =
     (if k = ''__proto__'' then ''[object Object]''
      else if k = ''constructor'' then ''function Object() { [native code] }''
      else ''function '' @ k @ ''() { [native code] }'')"

text \<open>\<^verbatim>\<open>cell?.toString()\<close>: \<open>None\<close> is \<^verbatim>\<open>undefined\<close>, the result on \<^verbatim>\<open>null\<close> and \<^verbatim>\<open>undefined\<close>.\<close>

fun cell_toString :: "cell \<Rightarrow> string option" where
  "cell_toString Null = None"
| "cell_toString Undefined = None"
| "cell_toString (Number n) = Some (num_toString n)"
| "cell_toString (Str s) = Some s"
| "cell_toString (Bool b) = Some (if b then ''true'' else ''false'')"
| "cell_toString (DateObj i t) = Some t"
| "cell_toString (Builtin k) = Some (builtin_text k)"

text \<open>The property key a value is converted to when it indexes an object.\<close>

fun toPropertyKey :: "cell \<Rightarrow> string" where
  "toPropertyKey Null = ''null''"
| "toPropertyKey Undefined = ''undefined''"
| "toPropertyKey c = the (cell_toString c)"

text \<open>
  \<^verbatim>\<open>parseFloat(v)\<close> converts \<^verbatim>\<open>v\<close> to a string and parses it. A number printed and
  read back is the same number; \<^verbatim>\<open>true\<close>, \<^verbatim>\<open>null\<close> and \<^verbatim>\<open>undefined\<close> do not parse.
\<close>

fun parseFloat :: "cell \<Rightarrow> jsnum" where
  "parseFloat (Number n) = n"
| "parseFloat (Str s) = parseFloat_str s"
| "parseFloat (DateObj i t) = parseFloat_str t"
| "parseFloat (Builtin k) = parseFloat_str (builtin_text k)"
| "parseFloat _ = NaN"

text \<open>The test \<^verbatim>\<open>cell !== null && cell !== undefined && cell !== ''\<close>.\<close>

definition nonEmpty :: "cell \<Rightarrow> bool" where
  "nonEmpty cell = (cell \<noteq> Null \<and> cell \<noteq> Undefined \<and> cell \<noteq> Str '''')"

text \<open>
  A record (one labelled row) is a plain object: its own properties, in the order
  \<^verbatim>\<open>Object.keys\<close> lists them, with pairwise distinct labels. A read finds the own
  property, then the inherited member, and is \<^verbatim>\<open>undefined\<close> otherwise.
\<close>

type_synonym jsrecord = "(string \<times> cell) list"

definition js_get :: "jsrecord \<Rightarrow> string \<Rightarrow> cell" where
  "js_get obj k =
     (case map_of obj k of
        Some v \<Rightarrow> v
      | None \<Rightarrow> if k \<in> set objectPrototypeKeys then Builtin k else Undefined)"






text \<open>\<^verbatim>\<open>xs.slice(start, end)\<close> for indices that are not negative.\<close>

definition js_slice :: "'a list \<Rightarrow> nat \<Rightarrow> nat \<Rightarrow> 'a list" where
  "js_slice xs start end = drop start (take end xs)"

section \<open>Header detection (\<^verbatim>\<open>headerDetection.js\<close>)\<close>

text \<open>
  The grid is the array of arrays the decoder produces (\<^verbatim>\<open>sheet_to_json\<close> with
  \<^verbatim>\<open>header: 1\<close>): every row is an array of cells, so the guards \<^verbatim>\<open>!jsonData\<close> and
  \<^verbatim>\<open>!row\<close> of the source have no counterpart. A row index is a natural number.
\<close>

type_synonym grid = "cell list list"

subsection \<open>\<^verbatim>\<open>evaluateConsistencyOfFollowingRows\<close>\<close>

text \<open>
  The rows the consistency score looks at:
  \<^verbatim>\<open>jsonData.slice(headerRowIndex + 1,
      headerRowIndex + Math.min(5, jsonData.length - headerRowIndex - 1))\<close>.
  The function reaches this line only when \<open>headerRowIndex + 1 < length jsonData\<close>,
  where the subtraction on naturals is the one on integers.
\<close>

definition dataRows :: "grid \<Rightarrow> nat \<Rightarrow> cell list list" where
  "dataRows jsonData headerRowIndex =
     js_slice jsonData (headerRowIndex + 1)
       (headerRowIndex + min 5 (length jsonData - headerRowIndex - 1))"







subsection \<open>\<^verbatim>\<open>findHeaderRow\<close>\<close>



text \<open>The number of non-empty cells, which the source computes three times.\<close>

definition nonEmptyCount :: "cell list \<Rightarrow> nat" where
  "nonEmptyCount row = length (filter nonEmpty row)"










text \<open>
  \<^verbatim>\<open>new Set(row.map(cell => cell?.toString()?.toLowerCase()))\<close>: the set has one member
  for every distinct lowercased text of a cell of the row, empty cells included
  (\<open>None\<close> is the member \<^verbatim>\<open>undefined\<close>).
\<close>

definition uniqueValues :: "cell list \<Rightarrow> string option list" where
  "uniqueValues row = remdups (map (\<lambda>cell. map_option toLowerCase (cell_toString cell)) row)"

definition uniquenessRatio :: "cell list \<Rightarrow> jsnum" where
  "uniquenessRatio row =
     jdiv (Fin (of_nat (length (uniqueValues row)))) (Fin (of_nat (nonEmptyCount row)))"










section \<open>Matching and aggregation (\<^verbatim>\<open>dataProcessor.js\<close>)\<close>

subsection \<open>\<^verbatim>\<open>createRemittanceMapping\<close>\<close>

text \<open>
  The three tables are plain objects used as dictionaries: the identifier of a row is
  converted to a property key, so they are maps from strings. A read of a key that names
  a member of \<^verbatim>\<open>Object.prototype\<close> finds that member; it is truthy, so the row's amount
  list is not created and \<^verbatim>\<open>remittanceAmountsByID[id].push\<close> is a call of \<^verbatim>\<open>undefined\<close>:
  the function throws a \<^verbatim>\<open>TypeError\<close>.
\<close>

datatype error = TypeError

text \<open>
  The amount of one row, from the cell \<^verbatim>\<open>rawAmt = row[amtFieldName]\<close>: a number as it
  is, a string cleaned and parsed, anything else 0.
\<close>

fun parsedAmount :: "cell \<Rightarrow> jsnum" where
  "parsedAmount (Number n) = n"
| "parsedAmount (Str s) = or_zero (parseFloat_str (cleanAmt s))"
| "parsedAmount _ = Fin 0"

text \<open>
  \<open>amtFieldName\<close> is \<open>None\<close> when the caller found no amount column (\<^verbatim>\<open>undefined\<close>);
  the empty string is falsy as well.
\<close>

definition rowAmount :: "string option \<Rightarrow> jsrecord \<Rightarrow> jsnum" where
  "rowAmount amtFieldName row =
     (case amtFieldName of
        None \<Rightarrow> Fin 0
      | Some f \<Rightarrow> if f = '''' then Fin 0 else parsedAmount (js_get row f))"

record tables =
  idCounts :: "string \<rightharpoonup> nat"
  amountsByID :: "string \<rightharpoonup> jsnum list"

text \<open>The body of \<^verbatim>\<open>remittanceData.forEach\<close>.\<close>

definition addRow :: "string \<Rightarrow> string option \<Rightarrow> tables \<Rightarrow> jsrecord \<Rightarrow> error + tables" where
  "addRow remittanceIdField amtFieldName t row =
     (let id = toPropertyKey (js_get row remittanceIdField);
          amount = rowAmount amtFieldName row
      in if id \<in> set objectPrototypeKeys then Inl TypeError
         else Inr \<lparr>idCounts = (idCounts t)(id \<mapsto> (case idCounts t id of None \<Rightarrow> 0 | Some c \<Rightarrow> c) + 1),
                   amountsByID = (amountsByID t)(id \<mapsto>
                     (case amountsByID t id of None \<Rightarrow> [] | Some amounts \<Rightarrow> amounts) @ [amount])\<rparr>)"

fun addRows :: "string \<Rightarrow> string option \<Rightarrow> tables \<Rightarrow> jsrecord list \<Rightarrow> error + tables" where
  "addRows remittanceIdField amtFieldName t [] = Inr t"
| "addRows remittanceIdField amtFieldName t (row # rows) =
     (case addRow remittanceIdField amtFieldName t row of
        Inl e \<Rightarrow> Inl e
      | Inr t' \<Rightarrow> addRows remittanceIdField amtFieldName t' rows)"

text \<open>\<^verbatim>\<open>amounts.reduce((total, amt) => total + amt, 0)\<close>.\<close>

definition sumAmounts :: "jsnum list \<Rightarrow> jsnum" where
  "sumAmounts amounts = foldl jadd (Fin 0) amounts"

record remittanceMapping =
  remittanceIdCounts :: "string \<rightharpoonup> nat"
  remittanceAmountsByID :: "string \<rightharpoonup> jsnum list"
  remittanceAmtSumByID :: "string \<rightharpoonup> jsnum"

definition createRemittanceMapping ::
  "jsrecord list \<Rightarrow> string \<Rightarrow> string option \<Rightarrow> error + remittanceMapping" where
  "createRemittanceMapping remittanceData remittanceIdField amtFieldName =
     (case addRows remittanceIdField amtFieldName
             \<lparr>idCounts = Map.empty, amountsByID = Map.empty\<rparr> remittanceData of
        Inl e \<Rightarrow> Inl e
      | Inr t \<Rightarrow>
          Inr \<lparr>remittanceIdCounts = idCounts t,
               remittanceAmountsByID = amountsByID t,
               remittanceAmtSumByID = (\<lambda>id. map_option sumAmounts (amountsByID t id))\<rparr>)"

subsection \<open>\<^verbatim>\<open>findMatchingRecords\<close>\<close>

record matching =
  matchedRows :: "jsrecord list"
  unmatchedRows :: "jsrecord list"

text \<open>
  \<open>remittanceIds\<close> is the \<^verbatim>\<open>Set\<close> of the source identifiers; \<^verbatim>\<open>has\<close> is membership.
\<close>

definition matchStep :: "cell set \<Rightarrow> string \<Rightarrow> matching \<Rightarrow> jsrecord \<Rightarrow> matching" where
  "matchStep remittanceIds submissionIdField m row =
     (if js_get row submissionIdField \<in> remittanceIds
      then m\<lparr>matchedRows := matchedRows m @ [row]\<rparr>
      else m\<lparr>unmatchedRows := unmatchedRows m @ [row]\<rparr>)"

definition findMatchingRecords :: "jsrecord list \<Rightarrow> cell set \<Rightarrow> string \<Rightarrow> matching" where
  "findMatchingRecords submissionData remittanceIds submissionIdField =
     foldl (matchStep remittanceIds submissionIdField)
       \<lparr>matchedRows = [], unmatchedRows = []\<rparr> submissionData"

subsection \<open>\<^verbatim>\<open>processMatchedData\<close>\<close>





text \<open>\<^verbatim>\<open>parseFloat(row['Amt']) || 0\<close>.\<close>

definition originalAmt :: "jsrecord \<Rightarrow> jsnum" where
  "originalAmt row = or_zero (parseFloat (js_get row ''Amt''))"


text \<open>
  \<^verbatim>\<open>headers.findIndex(header => header.toLowerCase() === 'amt')\<close>; \<open>None\<close> is the
  result \<^verbatim>\<open>-1\<close>.
\<close>

fun findIndex :: "('a \<Rightarrow> bool) \<Rightarrow> 'a list \<Rightarrow> nat option" where
  "findIndex P [] = None"
| "findIndex P (x # xs) = (if P x then Some 0 else map_option Suc (findIndex P xs))"






section \<open>The specification's wording\<close>

text \<open>
  The definitions of this section are not translations of code. They write down what
  the specification says about the uniqueness ratio, the lookahead window, the
  consistency score and the enrichment of a record, so that the functions above can be
  compared with it.
\<close>

text \<open>
  The specification's uniqueness ratio: the distinct lowercased texts of the non-empty
  cells, divided by the number of non-empty cells, and 0 when there is none.
\<close>

definition spec_uniquenessRatio :: "cell list \<Rightarrow> jsnum" where
  "spec_uniquenessRatio row =
     (let filled = filter nonEmpty row
      in if filled = [] then Fin 0
         else jdiv (Fin (of_nat (length (remdups
                      (map (\<lambda>cell. map_option toLowerCase (cell_toString cell)) filled)))))
                   (Fin (of_nat (length filled))))"

text \<open>
  The specification's lookahead window: the rows \<open>r + 1\<close> to
  \<open>r + min 4 (rowCount - r - 1)\<close>, both included.
\<close>

definition spec_window :: "grid \<Rightarrow> nat \<Rightarrow> cell list list" where
  "spec_window jsonData r =
     map (\<lambda>i. jsonData ! i) [r + 1 ..< r + min 4 (length jsonData - r - 1) + 1]"







section \<open>Auxiliary notions\<close>

text \<open>The property key under which the aggregation files a source record.\<close>

definition rowKey :: "string \<Rightarrow> jsrecord \<Rightarrow> string" where
  "rowKey idField row = toPropertyKey (js_get row idField)"


section \<open>Example data\<close>










section \<open>Properties\<close>

subsection \<open>The uniqueness ratio\<close>

text \<open>On a row without an empty cell the code computes the specification's ratio.\<close>

lemma uniquenessRatio_full_row:
  assumes "row \<noteq> []" "\<forall>c\<in>set row. nonEmpty c"
  shows "uniquenessRatio row = spec_uniquenessRatio row"
proof -
  have "filter nonEmpty row = row" using assms(2) by (simp add: filter_id_conv)
  then show ?thesis
    using assms(1) by (simp add: uniquenessRatio_def uniqueValues_def nonEmptyCount_def
        spec_uniquenessRatio_def)
qed

text \<open>
  C2. The specification defines the uniqueness ratio as the distinct texts of the
  non-empty cells over the number of non-empty cells, and as 0 for a row without a
  non-empty cell. The code divides the number of distinct texts of all cells by the
  number of non-empty cells. A row of two empty strings has ratio \<^verbatim>\<open>Infinity\<close> (one
  text, no non-empty cell) instead of 0, and the row \<^verbatim>\<open>['a', '']\<close> has ratio 2 instead
  of 1, because the empty cell contributes its text to the set.
\<close>

theorem uniquenessRatio_blank_row:
  "uniquenessRatio [Str '''', Str ''''] = PInf \<and>
   spec_uniquenessRatio [Str '''', Str ''''] = Fin 0 \<and>
   uniquenessRatio [Str ''a'', Str ''''] = Fin 2 \<and>
   spec_uniquenessRatio [Str ''a'', Str ''''] = Fin 1"
  by code_simp

subsection \<open>The lookahead window\<close>

lemma js_slice_nth: "js_slice xs s e = map ((!) xs) [s ..< min e (length xs)]"
proof (rule nth_equalityI)
  show "length (js_slice xs s e) = length (map ((!) xs) [s ..< min e (length xs)])"
    by (simp add: js_slice_def min.commute)
next
  fix i assume "i < length (js_slice xs s e)"
  then have "s + i < e" "s + i < length xs" by (simp_all add: js_slice_def)
  then show "js_slice xs s e ! i = map ((!) xs) [s ..< min e (length xs)] ! i"
    by (simp add: js_slice_def)
qed

lemma dataRows_rows:
  "dataRows g r = map ((!) g) [r + 1 ..< min (r + min 5 (length g - r - 1)) (length g)]"
  by (simp add: dataRows_def js_slice_nth)

lemma window_bounds_long:
  "r + 5 < n \<Longrightarrow>
   min (r + min 5 (n - r - 1)) n = r + 5 \<and> r + min 4 (n - r - 1) + 1 = r + (5::nat)"
  by arith

lemma window_bounds_short:
  "r + 1 < n \<Longrightarrow> n \<le> r + 5 \<Longrightarrow>
   min (r + min 5 (n - r - 1)) n = n - 1 \<and> r + min 4 (n - r - 1) + 1 = (n::nat)"
  by arith

lemma butlast_map_upt:
  assumes "r + 1 < n"
  shows "butlast (map f [r + 1 ..< n]) = map f [r + 1 ..< n - 1]"
proof -
  have "[r + 1 ..< Suc (n - 1)] = [r + 1 ..< n - 1] @ [n - 1]"
    using assms by (intro upt_Suc_append) simp
  moreover have "Suc (n - 1) = n" using assms by simp
  ultimately have "[r + 1 ..< n] = [r + 1 ..< n - 1] @ [n - 1]" by simp
  then show ?thesis by (simp del: upt_Suc)
qed

text \<open>
  When at least 5 rows follow row \<open>r\<close>, the code's window is the specification's.
  When fewer follow, it is the specification's window without its last row.
\<close>

lemma dataRows_long:
  assumes "r + 5 < length g"
  shows "dataRows g r = spec_window g r"
proof -
  have "dataRows g r = map ((!) g) [r + 1 ..< r + 5]"
    unfolding dataRows_rows using window_bounds_long[OF assms] by (simp only:)
  moreover have "spec_window g r = map ((!) g) [r + 1 ..< r + 5]"
    unfolding spec_window_def using window_bounds_long[OF assms] by (simp only:)
  ultimately show ?thesis by simp
qed

lemma dataRows_short:
  assumes "r + 1 < length g" "length g \<le> r + 5"
  shows "dataRows g r = butlast (spec_window g r)"
proof -
  have "dataRows g r = map ((!) g) [r + 1 ..< length g - 1]"
    unfolding dataRows_rows using window_bounds_short[OF assms] by (simp only:)
  moreover have "spec_window g r = map ((!) g) [r + 1 ..< length g]"
    unfolding spec_window_def using window_bounds_short[OF assms] by (simp only:)
  ultimately show ?thesis
    using butlast_map_upt[OF assms(1), of "(!) g"] by simp
qed

text \<open>
  C3. The specification's window after row \<open>r\<close> reaches the last row of the grid when
  fewer than 5 rows follow. In a grid of three rows the code's window after row 0 is
  the second row alone: the third is left out.
\<close>

theorem dataRows_omits_last_row:
  "dataRows [[Str ''h''], [Number (Fin 1)], [Number (Fin 2)]] 0 = [[Number (Fin 1)]] \<and>
   spec_window [[Str ''h''], [Number (Fin 1)], [Number (Fin 2)]] 0 =
     [[Number (Fin 1)], [Number (Fin 2)]]"
  by (simp add: dataRows_def js_slice_def spec_window_def upt_rec)

subsection \<open>The consistency score\<close>










subsection \<open>Scores and their order\<close>














subsection \<open>The scoring loop and the sort\<close>









subsection \<open>The selected row\<close>









subsection \<open>Rows with a forbidden word\<close>













subsection \<open>The two parses of an amount\<close>

text \<open>
  The enrichment parses the cell found under \<^verbatim>\<open>Amt\<close>. The two parses agree on numbers
  other than \<^verbatim>\<open>NaN\<close> and on texts that the clean-up leaves as they are.
\<close>

lemma originalAmt_cell: "originalAmt [(''Amt'', c)] = or_zero (parseFloat c)"
  by (simp add: originalAmt_def js_get_def)

lemma parses_agree_on_numbers:
  "n \<noteq> NaN \<Longrightarrow> parsedAmount (Number n) = or_zero (parseFloat (Number n))"
  by (simp add: or_zero_def)

lemma parses_agree_on_clean_text:
  "cleanAmt s = s \<Longrightarrow> parsedAmount (Str s) = or_zero (parseFloat (Str s))"
  by simp

text \<open>
  C1. The specification asks that the amount parser behave the same where the source
  amounts are summed and where \<open>originalAmt\<close> is computed. The aggregation removes every
  character that is not a digit, a point or a minus sign before it parses; the
  enrichment parses the cell as it is. On the text \<^verbatim>\<open>$100\<close> the first yields 100 and the
  second 0.
\<close>

theorem amount_parse_sites_differ:
  "parsedAmount (Str ''$100'') = Fin 100 \<and> originalAmt [(''Amt'', Str ''$100'')] = Fin 0"
  by code_simp

subsection \<open>The aggregate table\<close>

lemma addRow_ok:
  "rowKey idF row \<notin> set objectPrototypeKeys \<Longrightarrow>
   addRow idF amt t row =
     Inr \<lparr>idCounts = (idCounts t)(rowKey idF row \<mapsto>
                (case idCounts t (rowKey idF row) of None \<Rightarrow> 0 | Some c \<Rightarrow> c) + 1),
          amountsByID = (amountsByID t)(rowKey idF row \<mapsto>
                (case amountsByID t (rowKey idF row) of None \<Rightarrow> [] | Some amounts \<Rightarrow> amounts) @
                [rowAmount amt row])\<rparr>"
  by (simp add: addRow_def rowKey_def Let_def)


text \<open>An identifier that names a member of \<^verbatim>\<open>Object.prototype\<close> makes the function throw.\<close>

lemma addRows_error:
  assumes "\<exists>row\<in>set rows. rowKey idF row \<in> set objectPrototypeKeys"
  shows "addRows idF amt t rows = Inl TypeError"
  using assms
proof (induction rows arbitrary: t)
  case Nil
  then show ?case by simp
next
  case (Cons row rows)
  show ?case
  proof (cases "rowKey idF row \<in> set objectPrototypeKeys")
    case True
    then show ?thesis by (simp add: addRow_def rowKey_def Let_def)
  next
    case False
    then show ?thesis using Cons by (auto simp: addRow_ok)
  qed
qed

lemma createRemittanceMapping_error:
  "\<exists>row\<in>set rows. rowKey idF row \<in> set objectPrototypeKeys \<Longrightarrow>
   createRemittanceMapping rows idF amt = Inl TypeError"
  by (simp add: createRemittanceMapping_def addRows_error)







subsection \<open>The partition of the target records\<close>

lemma foldl_matchStep:
  "foldl (matchStep ids f) m rows =
     \<lparr>matchedRows = matchedRows m @ filter (\<lambda>row. js_get row f \<in> ids) rows,
      unmatchedRows = unmatchedRows m @ filter (\<lambda>row. js_get row f \<notin> ids) rows\<rparr>"
  by (induction rows arbitrary: m) (simp_all add: matchStep_def)

text \<open>
  C8. The matched rows are the target records whose identifier is in the set, the
  unmatched rows are the others, each in the order of the input; together they hold
  every record exactly once, so the two lengths add up to the number of target records.
  Membership is equality of values: the text \<^verbatim>\<open>"7"\<close> is not in a set that holds only the
  number 7, and such a record is unmatched.
\<close>

theorem findMatchingRecords_partition:
  "matchedRows (findMatchingRecords targets ids f) = filter (\<lambda>row. js_get row f \<in> ids) targets \<and>
   unmatchedRows (findMatchingRecords targets ids f) = filter (\<lambda>row. js_get row f \<notin> ids) targets \<and>
   mset (matchedRows (findMatchingRecords targets ids f)) +
     mset (unmatchedRows (findMatchingRecords targets ids f)) = mset targets \<and>
   set (matchedRows (findMatchingRecords targets ids f)) \<inter>
     set (unmatchedRows (findMatchingRecords targets ids f)) = {} \<and>
   length (matchedRows (findMatchingRecords targets ids f)) +
     length (unmatchedRows (findMatchingRecords targets ids f)) = length targets \<and>
   findMatchingRecords [[(''Claim ID'', Str ''7'')]] {Number (Fin 7)} ''Claim ID'' =
     \<lparr>matchedRows = [], unmatchedRows = [[(''Claim ID'', Str ''7'')]]\<rparr>"
proof -
  let ?P = "\<lambda>row. js_get row f \<in> ids"
  have m: "matchedRows (findMatchingRecords targets ids f) = filter ?P targets"
    and u: "unmatchedRows (findMatchingRecords targets ids f) = filter (\<lambda>row. \<not> ?P row) targets"
    by (simp_all add: findMatchingRecords_def foldl_matchStep)
  have len: "length (filter ?P targets) + length (filter (\<lambda>row. \<not> ?P row) targets) = length targets"
    by (rule sum_length_filter_compl)
  have ex: "findMatchingRecords [[(''Claim ID'', Str ''7'')]] {Number (Fin 7)} ''Claim ID'' =
     \<lparr>matchedRows = [], unmatchedRows = [[(''Claim ID'', Str ''7'')]]\<rparr>"
    by (simp add: findMatchingRecords_def matchStep_def js_get_def)
  show ?thesis
    unfolding m u using len ex by auto
qed

theorem findMatchingRecords_partition_witness:
  "findMatchingRecords
     [[(''Claim ID'', Str ''X'')], [(''Claim ID'', Str ''Y'')]] {Str ''X''} ''Claim ID'' =
   \<lparr>matchedRows = [[(''Claim ID'', Str ''X'')]], unmatchedRows = [[(''Claim ID'', Str ''Y'')]]\<rparr>"
  using findMatchingRecords_partition
    [of "[[(''Claim ID'', Str ''X'')], [(''Claim ID'', Str ''Y'')]]" "{Str ''X''}" "''Claim ID''"]
  by (simp add: js_get_def)

subsection \<open>The enrichment of a matched record\<close>












lemma findIndex_None: "findIndex P xs = None \<longleftrightarrow> (\<forall>x\<in>set xs. \<not> P x)"
  by (induction xs) auto






end
